theory Spec2Isabelle
  imports Main
begin

section \<open>JavaScript values\<close>

text \<open>
  The values the library handles: what a caller passes to the builder and what
  \<^verbatim>\<open>response.json()\<close> yields. An object is the list of its own properties in insertion
  order, with distinct keys. Numbers are the integral ones; fractions, NaN and the
  infinities are outside the model, and so is the rule of the language that puts
  array-index-like keys first (no statement below is about the order of keys).
\<close>

datatype jsval =
    JUndefined
  | JNull
  | JBool bool
  | JNum int
  | JStr string
  | JArr "jsval list"
  | JObj "(string \<times> jsval) list"

type_synonym jsobj = "(string \<times> jsval) list"

text \<open>
  A thrown value or a rejected promise. \<open>Error v\<close> is \<^verbatim>\<open>new Error(v)\<close>, kept with the
  argument it was built from; \<open>TypeError\<close> is what the language itself throws when a
  property of \<^verbatim>\<open>undefined\<close> or \<^verbatim>\<open>null\<close> is read or destructured.
\<close>

datatype error = Error jsval | TypeError

text \<open>\<^verbatim>\<open>await p\<close> followed by the rest of an async function: a rejection propagates.\<close>

definition await :: "error + 'a \<Rightarrow> ('a \<Rightarrow> error + 'b) \<Rightarrow> error + 'b" where
  "await p k = (case p of Inl e \<Rightarrow> Inl e | Inr v \<Rightarrow> k v)"

text \<open>Truthiness, as \<^verbatim>\<open>if (v)\<close>, \<^verbatim>\<open>!v\<close> and \<^verbatim>\<open>v || w\<close> test it.\<close>

fun truthy :: "jsval \<Rightarrow> bool" where
  "truthy JUndefined = False"
| "truthy JNull = False"
| "truthy (JBool b) = b"
| "truthy (JNum n) = (n \<noteq> 0)"
| "truthy (JStr s) = (s \<noteq> [])"
| "truthy (JArr xs) = True"
| "truthy (JObj kvs) = True"

text \<open>\<^verbatim>\<open>a || b\<close>\<close>

definition js_or :: "jsval \<Rightarrow> jsval \<Rightarrow> jsval" where
  "js_or a b = (if truthy a then a else b)"

text \<open>
  \<^verbatim>\<open>obj[k]\<close> read on an object: the own property, \<^verbatim>\<open>undefined\<close> when there is none. The
  library reads an object under its own keys (\<^verbatim>\<open>Object.keys\<close>) and under the names
  \<^verbatim>\<open>field\<close>, \<^verbatim>\<open>table\<close>, \<^verbatim>\<open>referenceField\<close>, \<^verbatim>\<open>select\<close>, \<^verbatim>\<open>where\<close>, \<^verbatim>\<open>sort\<close>, \<^verbatim>\<open>limit\<close>,
  \<^verbatim>\<open>skip\<close>, \<^verbatim>\<open>justOne\<close>, \<^verbatim>\<open>new\<close>, \<^verbatim>\<open>success\<close>, \<^verbatim>\<open>data\<close>, \<^verbatim>\<open>message\<close>, \<^verbatim>\<open>count\<close>, \<^verbatim>\<open>exists\<close>
  and \<^verbatim>\<open>0\<close>, none of which \<^verbatim>\<open>Object.prototype\<close> has.
\<close>

definition get_prop :: "jsobj \<Rightarrow> string \<Rightarrow> jsval" where
  "get_prop obj k = (case map_of obj k of None \<Rightarrow> JUndefined | Some v \<Rightarrow> v)"

text \<open>
  Setting the own property \<open>k\<close> of an object to \<open>v\<close>: an existing property keeps its
  place and takes the new value, a new one goes last.
\<close>

primrec set_prop :: "string \<Rightarrow> jsval \<Rightarrow> jsobj \<Rightarrow> jsobj" where
  "set_prop k v [] = [(k, v)]"
| "set_prop k v (p # ps) = (if fst p = k then (k, v) # ps else p # set_prop k v ps)"

text \<open>
  \<^verbatim>\<open>v.k\<close> on any value, for the names the library reads (\<^verbatim>\<open>length\<close>, \<^verbatim>\<open>success\<close>,
  \<^verbatim>\<open>data\<close>, \<^verbatim>\<open>message\<close>, \<^verbatim>\<open>count\<close>, \<^verbatim>\<open>exists\<close>): of these only \<^verbatim>\<open>length\<close> is a property of
  arrays and strings, and none is one of numbers or booleans.
\<close>

fun js_get :: "jsval \<Rightarrow> string \<Rightarrow> error + jsval" where
  "js_get JUndefined k = Inl TypeError"
| "js_get JNull k = Inl TypeError"
| "js_get (JObj kvs) k = Inr (get_prop kvs k)"
| "js_get (JArr xs) k = Inr (if k = ''length'' then JNum (int (length xs)) else JUndefined)"
| "js_get (JStr s) k = Inr (if k = ''length'' then JNum (int (length s)) else JUndefined)"
| "js_get (JBool b) k = Inr JUndefined"
| "js_get (JNum n) k = Inr JUndefined"

text \<open>\<^verbatim>\<open>v[0]\<close>\<close>

fun js_first :: "jsval \<Rightarrow> error + jsval" where
  "js_first JUndefined = Inl TypeError"
| "js_first JNull = Inl TypeError"
| "js_first (JArr xs) = Inr (case xs of [] \<Rightarrow> JUndefined | x # _ \<Rightarrow> x)"
| "js_first (JStr s) = Inr (case s of [] \<Rightarrow> JUndefined | c # _ \<Rightarrow> JStr [c])"
| "js_first (JObj kvs) = Inr (get_prop kvs ''0'')"
| "js_first (JBool b) = Inr JUndefined"
| "js_first (JNum n) = Inr JUndefined"

section \<open>JSON text\<close>

text \<open>
  The text \<^verbatim>\<open>JSON.stringify\<close> produces is represented by the document it denotes;
  escaping and number formatting are not modelled.
\<close>

datatype json =
    JsonNull
  | JsonBool bool
  | JsonNum int
  | JsonStr string
  | JsonArr "json list"
  | JsonObj "(string \<times> json) list"

text \<open>
  \<^verbatim>\<open>JSON.stringify(v)\<close>: \<open>None\<close> is the result \<^verbatim>\<open>undefined\<close>. A property whose value is
  \<^verbatim>\<open>undefined\<close> is left out of an object, and \<^verbatim>\<open>undefined\<close> in an array becomes \<^verbatim>\<open>null\<close>.
\<close>

fun JSON_stringify :: "jsval \<Rightarrow> json option"
  and stringify_elems :: "jsval list \<Rightarrow> json list"
  and stringify_props :: "(string \<times> jsval) list \<Rightarrow> (string \<times> json) list" where
  "JSON_stringify JUndefined = None"
| "JSON_stringify JNull = Some JsonNull"
| "JSON_stringify (JBool b) = Some (JsonBool b)"
| "JSON_stringify (JNum n) = Some (JsonNum n)"
| "JSON_stringify (JStr s) = Some (JsonStr s)"
| "JSON_stringify (JArr xs) = Some (JsonArr (stringify_elems xs))"
| "JSON_stringify (JObj kvs) = Some (JsonObj (stringify_props kvs))"
| "stringify_elems [] = []"
| "stringify_elems (x # xs) =
     (case JSON_stringify x of None \<Rightarrow> JsonNull | Some j \<Rightarrow> j) # stringify_elems xs"
| "stringify_props [] = []"
| "stringify_props (p # ps) =
     (case JSON_stringify (snd p) of
        None \<Rightarrow> stringify_props ps
      | Some j \<Rightarrow> (fst p, j) # stringify_props ps)"

text \<open>The value of a property assigned \<^verbatim>\<open>JSON.stringify(v)\<close>, and of one assigned \<^verbatim>\<open>v\<close> itself.\<close>

datatype param = JsonText json | Plain jsval

definition stringified :: "jsval \<Rightarrow> param" where
  "stringified v = (case JSON_stringify v of None \<Rightarrow> Plain JUndefined | Some j \<Rightarrow> JsonText j)"

section \<open>The transport\<close>

text \<open>
  \<^verbatim>\<open>fetch\<close> is a parameter: it maps a request to a response or rejects. Of the response
  the library reads \<^verbatim>\<open>ok\<close>, \<^verbatim>\<open>statusText\<close> and \<^verbatim>\<open>json()\<close>, which may reject too. The query
  part of the URL is kept as the entries handed to \<^verbatim>\<open>URLSearchParams\<close>.
\<close>

record request =
  url :: string
  searchParams :: "(string \<times> param) list option"
  http_method :: string
  request_headers :: "(string \<times> string) list"
  body :: "json option"

record response =
  ok :: bool
  statusText :: string
  response_json :: "error + jsval"

type_synonym transport = "request \<Rightarrow> error + response"

record DBConnection =
  baseURL :: string
  siteId :: string
  headers :: "(string \<times> string) list"

section \<open>QueryBuilder\<close>

text \<open>
  The object \<^verbatim>\<open>this.filters\<close> is kept as its own properties, \<open>filters\<close>, and its
  prototype, \<open>filters_proto\<close>: \<open>None\<close> is \<^verbatim>\<open>Object.prototype\<close>, which the literal \<^verbatim>\<open>{}\<close> of
  the constructor gives it, and \<open>Some p\<close> is an object created by a literal with the own
  properties \<open>p\<close>. Only the own properties are counted by \<^verbatim>\<open>Object.keys\<close> and written by
  \<^verbatim>\<open>JSON.stringify\<close>.
\<close>

record QueryBuilder =
  collectionName :: string
  apiClient :: DBConnection
  filters :: jsobj
  filters_proto :: "jsobj option"
  sortOptions :: jsval
  limitValue :: jsval
  skipValue :: jsval
  selectFields :: jsval
  populateFields :: "jsval list"

text \<open>The constructor.\<close>

definition new_QueryBuilder :: "string \<Rightarrow> DBConnection \<Rightarrow> QueryBuilder" where
  "new_QueryBuilder name client =
     \<lparr>collectionName = name, apiClient = client, filters = [], filters_proto = None,
      sortOptions = JObj [],
      limitValue = JNull, skipValue = JNum 0, selectFields = JNull, populateFields = []\<rparr>"

text \<open>
  The assignment \<^verbatim>\<open>this.filters[field] = { ... }\<close> every predicate-setting method makes,
  \<open>predicate\<close> being the own properties of the object literal. The name \<^verbatim>\<open>__proto__\<close> is
  an accessor of \<^verbatim>\<open>Object.prototype\<close>: unless \<^verbatim>\<open>this.filters\<close> has an own property of that
  name, or the object that is its prototype by then has one, the assignment calls the
  setter, which makes the assigned object the prototype of \<^verbatim>\<open>this.filters\<close> and creates
  no own property. Under every other name, and in the two cases excepted, the
  assignment sets an own property. (A computed key of a literal, as in
  \<^verbatim>\<open>{ [operator]: value }\<close>, always defines an own property.)
\<close>

definition assign_filter :: "QueryBuilder \<Rightarrow> string \<Rightarrow> jsobj \<Rightarrow> QueryBuilder" where
  "assign_filter this field predicate =
     (if field = ''__proto__'' \<and> map_of (filters this) field = None
         \<and> (case filters_proto this of None \<Rightarrow> True | Some p \<Rightarrow> map_of p field = None)
      then this\<lparr>filters_proto := Some predicate\<rparr>
      else this\<lparr>filters := set_prop field (JObj predicate) (filters this)\<rparr>)"

text \<open>
  \<^verbatim>\<open>where(field, operator, value)\<close> tells its two forms apart by \<^verbatim>\<open>arguments.length\<close>.
  The arguments after \<^verbatim>\<open>field\<close> are \<open>WhereValue v\<close> for the call \<^verbatim>\<open>where(field, v)\<close>
  and \<open>WhereOp operator v\<close> for the call \<^verbatim>\<open>where(field, operator, v)\<close>, where the operator
  is a string, used as the computed key. Calls with one argument or with more than three
  are outside the model.
\<close>

datatype where_args = WhereValue jsval | WhereOp string jsval

fun QueryBuilder_where :: "QueryBuilder \<Rightarrow> string \<Rightarrow> where_args \<Rightarrow> QueryBuilder" where
  "QueryBuilder_where this field (WhereValue operator) =
     assign_filter this field [(''$eq'', operator)]"
| "QueryBuilder_where this field (WhereOp operator v) =
     assign_filter this field [(operator, v)]"

definition QueryBuilder_eq :: "QueryBuilder \<Rightarrow> string \<Rightarrow> jsval \<Rightarrow> QueryBuilder" where
  "QueryBuilder_eq this field v =
     assign_filter this field [(''$eq'', v)]"

definition QueryBuilder_gt :: "QueryBuilder \<Rightarrow> string \<Rightarrow> jsval \<Rightarrow> QueryBuilder" where
  "QueryBuilder_gt this field v =
     assign_filter this field [(''$gt'', v)]"

definition QueryBuilder_gte :: "QueryBuilder \<Rightarrow> string \<Rightarrow> jsval \<Rightarrow> QueryBuilder" where
  "QueryBuilder_gte this field v =
     assign_filter this field [(''$gte'', v)]"

definition QueryBuilder_lt :: "QueryBuilder \<Rightarrow> string \<Rightarrow> jsval \<Rightarrow> QueryBuilder" where
  "QueryBuilder_lt this field v =
     assign_filter this field [(''$lt'', v)]"

definition QueryBuilder_lte :: "QueryBuilder \<Rightarrow> string \<Rightarrow> jsval \<Rightarrow> QueryBuilder" where
  "QueryBuilder_lte this field v =
     assign_filter this field [(''$lte'', v)]"

definition QueryBuilder_in :: "QueryBuilder \<Rightarrow> string \<Rightarrow> jsval \<Rightarrow> QueryBuilder" where
  "QueryBuilder_in this field vs =
     assign_filter this field [(''$in'', vs)]"

definition QueryBuilder_nin :: "QueryBuilder \<Rightarrow> string \<Rightarrow> jsval \<Rightarrow> QueryBuilder" where
  "QueryBuilder_nin this field vs =
     assign_filter this field [(''$nin'', vs)]"

definition QueryBuilder_ne :: "QueryBuilder \<Rightarrow> string \<Rightarrow> jsval \<Rightarrow> QueryBuilder" where
  "QueryBuilder_ne this field v =
     assign_filter this field [(''$ne'', v)]"

definition QueryBuilder_between ::
  "QueryBuilder \<Rightarrow> string \<Rightarrow> jsval \<Rightarrow> jsval \<Rightarrow> QueryBuilder" where
  "QueryBuilder_between this field value1 value2 =
     assign_filter this field [(''$between'', JArr [value1, value2])]"

definition QueryBuilder_like :: "QueryBuilder \<Rightarrow> string \<Rightarrow> jsval \<Rightarrow> QueryBuilder" where
  "QueryBuilder_like this field pattern =
     assign_filter this field [(''$like'', pattern)]"

definition QueryBuilder_sort :: "QueryBuilder \<Rightarrow> jsval \<Rightarrow> QueryBuilder" where
  "QueryBuilder_sort this sortObj = this\<lparr>sortOptions := sortObj\<rparr>"

definition QueryBuilder_limit :: "QueryBuilder \<Rightarrow> jsval \<Rightarrow> QueryBuilder" where
  "QueryBuilder_limit this n = this\<lparr>limitValue := n\<rparr>"

definition QueryBuilder_skip :: "QueryBuilder \<Rightarrow> jsval \<Rightarrow> QueryBuilder" where
  "QueryBuilder_skip this n = this\<lparr>skipValue := n\<rparr>"

definition QueryBuilder_select :: "QueryBuilder \<Rightarrow> jsval \<Rightarrow> QueryBuilder" where
  "QueryBuilder_select this fs = this\<lparr>selectFields := fs\<rparr>"

text \<open>
  A destructured parameter with a default, \<^verbatim>\<open>{ k = d }\<close>: the default is taken when the
  property is missing or \<^verbatim>\<open>undefined\<close>.
\<close>

definition with_default :: "jsobj \<Rightarrow> string \<Rightarrow> jsval \<Rightarrow> jsval" where
  "with_default config k d = (if get_prop config k = JUndefined then d else get_prop config k)"

text \<open>The object literal \<^verbatim>\<open>populate\<close> builds from its destructured parameter.\<close>

definition populate_directive :: "jsobj \<Rightarrow> jsval" where
  "populate_directive config =
     JObj [(''field'', get_prop config ''field''),
           (''table'', get_prop config ''table''),
           (''referenceField'', get_prop config ''referenceField''),
           (''select'', with_default config ''select'' (JStr [])),
           (''where'', with_default config ''where'' (JStr [])),
           (''sort'', with_default config ''sort'' (JStr [])),
           (''limit'', with_default config ''limit'' JNull),
           (''skip'', with_default config ''skip'' (JNum 0)),
           (''justOne'', with_default config ''justOne'' (JBool False))]"

text \<open>
  \<^verbatim>\<open>populate(config)\<close>. The parameter is destructured, which throws a TypeError when the
  argument is \<^verbatim>\<open>undefined\<close> or \<^verbatim>\<open>null\<close> (\<open>None\<close>); \<open>Some config\<close> is an object with the own
  properties \<open>config\<close>. The body has no check and no \<^verbatim>\<open>throw\<close>.
\<close>

definition QueryBuilder_populate :: "QueryBuilder \<Rightarrow> jsobj option \<Rightarrow> error + QueryBuilder" where
  "QueryBuilder_populate this arg =
     (case arg of
        None \<Rightarrow> Inl TypeError
      | Some config \<Rightarrow>
          Inr (this\<lparr>populateFields := populateFields this @ [populate_directive config]\<rparr>))"

text \<open>The object literal \<^verbatim>\<open>queryParams\<close> of \<^verbatim>\<open>exec\<close>.\<close>

record query_params =
  qp_filters :: jsobj
  qp_sort :: jsval
  qp_limit :: jsval
  qp_skip :: jsval
  qp_select :: jsval
  qp_populate :: "jsval list"

definition queryParams :: "QueryBuilder \<Rightarrow> query_params" where
  "queryParams this =
     \<lparr>qp_filters = filters this, qp_sort = sortOptions this, qp_limit = limitValue this,
      qp_skip = skipValue this, qp_select = selectFields this,
      qp_populate = populateFields this\<rparr>"

section \<open>DBConnection\<close>

text \<open>
  The closure \<^verbatim>\<open>fetchFn\<close> every operation builds: send the request, fail with the
  operation's message and the status text unless \<^verbatim>\<open>response.ok\<close>, else parse the body.
\<close>

definition fetchFn :: "transport \<Rightarrow> request \<Rightarrow> string \<Rightarrow> error + jsval" where
  "fetchFn fetch req failed =
     await (fetch req) (\<lambda>r.
       if \<not> ok r then Inl (Error (JStr (failed @ statusText r)))
       else response_json r)"

text \<open>
  \<^verbatim>\<open>cleanFetch(fetchFn)\<close>, given the outcome of calling \<^verbatim>\<open>fetchFn\<close>. The \<^verbatim>\<open>catch\<close> block
  throws what it caught.
\<close>

definition cleanFetch :: "error + jsval \<Rightarrow> error + jsval" where
  "cleanFetch fetched =
     await fetched (\<lambda>r.
       await (js_get r ''success'') (\<lambda>success.
         if \<not> truthy success then await (js_get r ''message'') (\<lambda>m. Inl (Error m))
         else js_get r ''data''))"

text \<open>
  \<^verbatim>\<open>Object.keys(v).length\<close> for a value that is neither \<^verbatim>\<open>undefined\<close> nor \<^verbatim>\<open>null\<close> (on
  those it throws; every use below comes after a truthiness test).
\<close>

fun keys_length :: "jsval \<Rightarrow> nat" where
  "keys_length (JObj kvs) = length kvs"
| "keys_length (JArr xs) = length xs"
| "keys_length (JStr s) = length s"
| "keys_length v = 0"

text \<open>
  \<^verbatim>\<open>_buildQueryParams(queryParams)\<close>: the properties of \<^verbatim>\<open>params\<close> in the order they are
  assigned. \<^verbatim>\<open>filters\<close> is an object and \<^verbatim>\<open>populate\<close> an array, both truthy.
\<close>

definition buildQueryParams :: "query_params \<Rightarrow> (string \<times> param) list" where
  "buildQueryParams qp =
     (if qp_filters qp \<noteq> [] then [(''filters'', stringified (JObj (qp_filters qp)))] else [])
     @ (if truthy (qp_sort qp) \<and> keys_length (qp_sort qp) > 0
        then [(''sort'', stringified (qp_sort qp))] else [])
     @ (if truthy (qp_limit qp) then [(''limit'', Plain (qp_limit qp))] else [])
     @ (if truthy (qp_skip qp) then [(''skip'', Plain (qp_skip qp))] else [])
     @ (if truthy (qp_select qp) then [(''select'', stringified (qp_select qp))] else [])
     @ (if qp_populate qp \<noteq> []
        then [(''populate'', stringified (JArr (qp_populate qp)))] else [])"

definition insertOne_request :: "DBConnection \<Rightarrow> string \<Rightarrow> jsval \<Rightarrow> request" where
  "insertOne_request this tableName fs =
     \<lparr>url = baseURL this @ ''/collections/'' @ tableName @ ''/records'',
      searchParams = None, http_method = ''POST'', request_headers = headers this,
      body = JSON_stringify (JObj [(''fields'', fs)])\<rparr>"

definition DBConnection_insertOne ::
  "transport \<Rightarrow> DBConnection \<Rightarrow> string \<Rightarrow> jsval \<Rightarrow> error + jsval" where
  "DBConnection_insertOne fetch this tableName fs =
     cleanFetch (fetchFn fetch (insertOne_request this tableName fs) ''Failed to insert record: '')"

definition insertMany_request :: "DBConnection \<Rightarrow> string \<Rightarrow> jsval \<Rightarrow> request" where
  "insertMany_request this tableName records =
     \<lparr>url = baseURL this @ ''/collections/'' @ tableName @ ''/records/bulk'',
      searchParams = None, http_method = ''POST'', request_headers = headers this,
      body = JSON_stringify (JObj [(''records'', records)])\<rparr>"

definition DBConnection_insertMany ::
  "transport \<Rightarrow> DBConnection \<Rightarrow> string \<Rightarrow> jsval \<Rightarrow> error + jsval" where
  "DBConnection_insertMany fetch this tableName records =
     cleanFetch (fetchFn fetch (insertMany_request this tableName records)
       ''Failed to insert records: '')"

definition query_request :: "DBConnection \<Rightarrow> string \<Rightarrow> query_params \<Rightarrow> request" where
  "query_request this tableName qp =
     \<lparr>url = baseURL this @ ''/collections/'' @ tableName @ ''/records'',
      searchParams = Some (buildQueryParams qp), http_method = ''GET'',
      request_headers = headers this, body = None\<rparr>"

definition DBConnection_query ::
  "transport \<Rightarrow> DBConnection \<Rightarrow> string \<Rightarrow> query_params \<Rightarrow> error + jsval" where
  "DBConnection_query fetch this tableName qp =
     cleanFetch (fetchFn fetch (query_request this tableName qp) ''Failed to query records: '')"

definition updateById_request :: "DBConnection \<Rightarrow> string \<Rightarrow> string \<Rightarrow> jsval \<Rightarrow> request" where
  "updateById_request this tableName rid fs =
     \<lparr>url = baseURL this @ ''/collections/'' @ tableName @ ''/records/'' @ rid,
      searchParams = None, http_method = ''PATCH'', request_headers = headers this,
      body = JSON_stringify (JObj [(''fields'', fs)])\<rparr>"

definition DBConnection_updateById ::
  "transport \<Rightarrow> DBConnection \<Rightarrow> string \<Rightarrow> string \<Rightarrow> jsval \<Rightarrow> error + jsval" where
  "DBConnection_updateById fetch this tableName rid fs =
     cleanFetch (fetchFn fetch (updateById_request this tableName rid fs)
       ''Failed to update record: '')"

definition updateOne_request :: "DBConnection \<Rightarrow> string \<Rightarrow> jsobj \<Rightarrow> jsval \<Rightarrow> request" where
  "updateOne_request this tableName fltrs fs =
     \<lparr>url = baseURL this @ ''/collections/'' @ tableName @ ''/records/update'',
      searchParams = None, http_method = ''PATCH'', request_headers = headers this,
      body = JSON_stringify (JObj [(''filters'', JObj fltrs), (''fields'', fs), (''limit'', JNum 1)])\<rparr>"

definition DBConnection_updateOne ::
  "transport \<Rightarrow> DBConnection \<Rightarrow> string \<Rightarrow> jsobj \<Rightarrow> jsval \<Rightarrow> error + jsval" where
  "DBConnection_updateOne fetch this tableName fltrs fs =
     cleanFetch (fetchFn fetch (updateOne_request this tableName fltrs fs)
       ''Failed to update record: '')"

definition updateMany_request :: "DBConnection \<Rightarrow> string \<Rightarrow> jsobj \<Rightarrow> jsval \<Rightarrow> request" where
  "updateMany_request this tableName fltrs fs =
     \<lparr>url = baseURL this @ ''/collections/'' @ tableName @ ''/records/update'',
      searchParams = None, http_method = ''PATCH'', request_headers = headers this,
      body = JSON_stringify (JObj [(''filters'', JObj fltrs), (''fields'', fs)])\<rparr>"

definition DBConnection_updateMany ::
  "transport \<Rightarrow> DBConnection \<Rightarrow> string \<Rightarrow> jsobj \<Rightarrow> jsval \<Rightarrow> error + jsval" where
  "DBConnection_updateMany fetch this tableName fltrs fs =
     cleanFetch (fetchFn fetch (updateMany_request this tableName fltrs fs)
       ''Failed to update records: '')"

definition deleteById_request :: "DBConnection \<Rightarrow> string \<Rightarrow> string \<Rightarrow> request" where
  "deleteById_request this tableName rid =
     \<lparr>url = baseURL this @ ''/collections/'' @ tableName @ ''/records/'' @ rid,
      searchParams = None, http_method = ''DELETE'', request_headers = headers this,
      body = None\<rparr>"

definition DBConnection_deleteById ::
  "transport \<Rightarrow> DBConnection \<Rightarrow> string \<Rightarrow> string \<Rightarrow> error + jsval" where
  "DBConnection_deleteById fetch this tableName rid =
     cleanFetch (fetchFn fetch (deleteById_request this tableName rid)
       ''Failed to delete record: '')"

definition deleteOne_request :: "DBConnection \<Rightarrow> string \<Rightarrow> jsobj \<Rightarrow> request" where
  "deleteOne_request this tableName fltrs =
     \<lparr>url = baseURL this @ ''/collections/'' @ tableName @ ''/records/delete'',
      searchParams = None, http_method = ''DELETE'', request_headers = headers this,
      body = JSON_stringify (JObj [(''filters'', JObj fltrs), (''limit'', JNum 1)])\<rparr>"

definition DBConnection_deleteOne ::
  "transport \<Rightarrow> DBConnection \<Rightarrow> string \<Rightarrow> jsobj \<Rightarrow> error + jsval" where
  "DBConnection_deleteOne fetch this tableName fltrs =
     cleanFetch (fetchFn fetch (deleteOne_request this tableName fltrs)
       ''Failed to delete record: '')"

definition deleteMany_request :: "DBConnection \<Rightarrow> string \<Rightarrow> jsobj \<Rightarrow> request" where
  "deleteMany_request this tableName fltrs =
     \<lparr>url = baseURL this @ ''/collections/'' @ tableName @ ''/records/delete'',
      searchParams = None, http_method = ''DELETE'', request_headers = headers this,
      body = JSON_stringify (JObj [(''filters'', JObj fltrs)])\<rparr>"

definition DBConnection_deleteMany ::
  "transport \<Rightarrow> DBConnection \<Rightarrow> string \<Rightarrow> jsobj \<Rightarrow> error + jsval" where
  "DBConnection_deleteMany fetch this tableName fltrs =
     cleanFetch (fetchFn fetch (deleteMany_request this tableName fltrs)
       ''Failed to delete records: '')"

definition count_request :: "DBConnection \<Rightarrow> string \<Rightarrow> jsobj \<Rightarrow> request" where
  "count_request this tableName fltrs =
     \<lparr>url = baseURL this @ ''/collections/'' @ tableName @ ''/records/count'',
      searchParams = Some [(''filters'', stringified (JObj fltrs))], http_method = ''GET'',
      request_headers = headers this, body = None\<rparr>"

definition DBConnection_count ::
  "transport \<Rightarrow> DBConnection \<Rightarrow> string \<Rightarrow> jsobj \<Rightarrow> error + jsval" where
  "DBConnection_count fetch this tableName fltrs =
     cleanFetch (fetchFn fetch (count_request this tableName fltrs)
       ''Failed to count records: '')"

definition exists_request :: "DBConnection \<Rightarrow> string \<Rightarrow> jsobj \<Rightarrow> request" where
  "exists_request this tableName fltrs =
     \<lparr>url = baseURL this @ ''/collections/'' @ tableName @ ''/records/exists'',
      searchParams = Some [(''filters'', stringified (JObj fltrs))], http_method = ''GET'',
      request_headers = headers this, body = None\<rparr>"

definition DBConnection_exists ::
  "transport \<Rightarrow> DBConnection \<Rightarrow> string \<Rightarrow> jsobj \<Rightarrow> error + jsval" where
  "DBConnection_exists fetch this tableName fltrs =
     cleanFetch (fetchFn fetch (exists_request this tableName fltrs)
       ''Failed to check if record exists: '')"

section \<open>Executing a query\<close>

definition QueryBuilder_exec :: "transport \<Rightarrow> QueryBuilder \<Rightarrow> error + jsval" where
  "QueryBuilder_exec fetch this =
     DBConnection_query fetch (apiClient this) (collectionName this) (queryParams this)"

text \<open>What \<^verbatim>\<open>exec\<close> puts on the wire: the URL parameters of the request it sends.\<close>

definition serialized :: "QueryBuilder \<Rightarrow> (string \<times> param) list" where
  "serialized this = buildQueryParams (queryParams this)"

section \<open>DBModel\<close>

record DBModel =
  model_collectionName :: string
  model_apiClient :: DBConnection

text \<open>\<^verbatim>\<open>_prepareFields(data)\<close>, for an object \<^verbatim>\<open>data\<close>.\<close>

definition prepareFields :: "jsobj \<Rightarrow> jsval" where
  "prepareFields data =
     JArr (map (\<lambda>key. JObj [(''field_name'', JStr key), (''field_value'', get_prop data key)])
            (map fst data))"



text \<open>\<^verbatim>\<open>find(filters)\<close>: one two-argument \<^verbatim>\<open>where\<close> per key of \<^verbatim>\<open>filters\<close>, in order.\<close>

definition DBModel_find :: "DBModel \<Rightarrow> jsobj \<Rightarrow> QueryBuilder" where
  "DBModel_find this fltrs =
     foldl (\<lambda>query key. QueryBuilder_where query key (WhereValue (get_prop fltrs key)))
       (new_QueryBuilder (model_collectionName this) (model_apiClient this))
       (map fst fltrs)"

definition DBModel_findOne :: "transport \<Rightarrow> DBModel \<Rightarrow> jsobj \<Rightarrow> error + jsval" where
  "DBModel_findOne fetch this fltrs =
     await (QueryBuilder_exec fetch (QueryBuilder_limit (DBModel_find this fltrs) (JNum 1)))
       (\<lambda>results. await (js_first results) (\<lambda>first. Inr (js_or first JNull)))"

definition DBModel_findById :: "transport \<Rightarrow> DBModel \<Rightarrow> string \<Rightarrow> error + jsval" where
  "DBModel_findById fetch this rid = DBModel_findOne fetch this [(''id'', JStr rid)]"

definition DBModel_updateOne ::
  "transport \<Rightarrow> DBModel \<Rightarrow> jsobj \<Rightarrow> jsobj \<Rightarrow> error + jsval" where
  "DBModel_updateOne fetch this fltrs updateData =
     await (DBConnection_updateOne fetch (model_apiClient this) (model_collectionName this)
              fltrs (prepareFields updateData))
       (\<lambda>res. await (js_get res ''length'') (\<lambda>n.
          Inr (JObj [(''acknowledged'', JBool True), (''matchedCount'', n),
                     (''modifiedCount'', n)])))"



definition DBModel_updateMany ::
  "transport \<Rightarrow> DBModel \<Rightarrow> jsobj \<Rightarrow> jsobj \<Rightarrow> error + jsval" where
  "DBModel_updateMany fetch this fltrs updateData =
     await (DBConnection_updateMany fetch (model_apiClient this) (model_collectionName this)
              fltrs (prepareFields updateData))
       (\<lambda>res. await (js_get res ''length'') (\<lambda>n.
          Inr (JObj [(''acknowledged'', JBool True), (''matchedCount'', n),
                     (''modifiedCount'', n)])))"

definition DBModel_deleteOne :: "transport \<Rightarrow> DBModel \<Rightarrow> jsobj \<Rightarrow> error + jsval" where
  "DBModel_deleteOne fetch this fltrs =
     await (DBConnection_deleteOne fetch (model_apiClient this) (model_collectionName this) fltrs)
       (\<lambda>res. await (js_get res ''length'') (\<lambda>n.
          Inr (JObj [(''acknowledged'', JBool True), (''deletedCount'', n)])))"



definition DBModel_deleteMany :: "transport \<Rightarrow> DBModel \<Rightarrow> jsobj \<Rightarrow> error + jsval" where
  "DBModel_deleteMany fetch this fltrs =
     await (DBConnection_deleteMany fetch (model_apiClient this) (model_collectionName this) fltrs)
       (\<lambda>res. await (js_get res ''length'') (\<lambda>n.
          Inr (JObj [(''acknowledged'', JBool True), (''deletedCount'', n)])))"



section \<open>Predicate-setting calls and example inputs\<close>

text \<open>
  The eleven methods that set a predicate, as one call on a field, so that a statement
  can range over all of them. \<open>set_predicate\<close> only dispatches to the methods above;
  \<open>predicate_of\<close> is the predicate a call is specified to set on its field: the
  operator tag with its value (for \<^verbatim>\<open>between\<close>, the pair of bounds).
\<close>

datatype predicate_call =
    Where where_args
  | Eq jsval
  | Gt jsval
  | Gte jsval
  | Lt jsval
  | Lte jsval
  | In jsval
  | Nin jsval
  | Ne jsval
  | Between jsval jsval
  | Like jsval

fun set_predicate :: "QueryBuilder \<Rightarrow> string \<Rightarrow> predicate_call \<Rightarrow> QueryBuilder" where
  "set_predicate qb f (Where args) = QueryBuilder_where qb f args"
| "set_predicate qb f (Eq v) = QueryBuilder_eq qb f v"
| "set_predicate qb f (Gt v) = QueryBuilder_gt qb f v"
| "set_predicate qb f (Gte v) = QueryBuilder_gte qb f v"
| "set_predicate qb f (Lt v) = QueryBuilder_lt qb f v"
| "set_predicate qb f (Lte v) = QueryBuilder_lte qb f v"
| "set_predicate qb f (In v) = QueryBuilder_in qb f v"
| "set_predicate qb f (Nin v) = QueryBuilder_nin qb f v"
| "set_predicate qb f (Ne v) = QueryBuilder_ne qb f v"
| "set_predicate qb f (Between v w) = QueryBuilder_between qb f v w"
| "set_predicate qb f (Like v) = QueryBuilder_like qb f v"

fun predicate_of :: "predicate_call \<Rightarrow> jsobj" where
  "predicate_of (Where (WhereValue v)) = [(''$eq'', v)]"
| "predicate_of (Where (WhereOp operator v)) = [(operator, v)]"
| "predicate_of (Eq v) = [(''$eq'', v)]"
| "predicate_of (Gt v) = [(''$gt'', v)]"
| "predicate_of (Gte v) = [(''$gte'', v)]"
| "predicate_of (Lt v) = [(''$lt'', v)]"
| "predicate_of (Lte v) = [(''$lte'', v)]"
| "predicate_of (In v) = [(''$in'', v)]"
| "predicate_of (Nin v) = [(''$nin'', v)]"
| "predicate_of (Ne v) = [(''$ne'', v)]"
| "predicate_of (Between v w) = [(''$between'', JArr [v, w])]"
| "predicate_of (Like v) = [(''$like'', v)]"

text \<open>A connection, a model of the collection \<^verbatim>\<open>users\<close>, and a transport that answers
  every request with status 200 and the given parsed body.\<close>

definition demo_connection :: DBConnection where
  "demo_connection = \<lparr>baseURL = ''/api/v1/site'', siteId = ''site'', headers = []\<rparr>"

definition demo_model :: DBModel where
  "demo_model = \<lparr>model_collectionName = ''users'', model_apiClient = demo_connection\<rparr>"

definition respond_with :: "jsval \<Rightarrow> transport" where
  "respond_with b req = Inr \<lparr>ok = True, statusText = ''OK'', response_json = Inr b\<rparr>"

section \<open>Basic facts\<close>

lemma await_Inr [simp]: "await (Inr v) k = k v"
  by (simp add: await_def)

lemma await_Inl [simp]: "await (Inl e) k = Inl e"
  by (simp add: await_def)

lemma map_of_set_prop: "map_of (set_prop k v ps) = (map_of ps)(k \<mapsto> v)"
  by (induction ps) auto

lemma get_prop_set_prop: "get_prop (set_prop k v ps) k' = (if k' = k then v else get_prop ps k')"
  by (simp add: get_prop_def map_of_set_prop)

lemma set_prop_twice: "set_prop k v (set_prop k w ps) = set_prop k v ps"
  by (induction ps) auto

lemma set_prop_not_Nil: "set_prop k v ps \<noteq> []"
  by (cases ps) auto

lemma stringify_props_set_prop:
  "JSON_stringify v = Some j \<Longrightarrow> map_of (stringify_props (set_prop k v ps)) k = Some j"
  by (induction ps) (auto split: option.splits)

lemma assign_filter_own:
  "f \<noteq> ''__proto__'' \<Longrightarrow>
   assign_filter qb f p = qb\<lparr>filters := set_prop f (JObj p) (filters qb)\<rparr>"
  by (simp add: assign_filter_def)

lemma set_predicate_filters: "set_predicate qb f c = assign_filter qb f (predicate_of c)"
  by (cases c rule: predicate_of.cases)
     (simp_all add: QueryBuilder_eq_def QueryBuilder_gt_def QueryBuilder_gte_def
       QueryBuilder_lt_def QueryBuilder_lte_def QueryBuilder_in_def QueryBuilder_nin_def
       QueryBuilder_ne_def QueryBuilder_between_def QueryBuilder_like_def)

lemma serialized_filters:
  "filters qb \<noteq> [] \<Longrightarrow>
   map_of (serialized qb) ''filters'' = Some (JsonText (JsonObj (stringify_props (filters qb))))"
  by (simp add: serialized_def buildQueryParams_def queryParams_def stringified_def)

lemma serialized_skip_key:
  "(''skip'' \<in> fst ` set (serialized qb)) = truthy (skipValue qb)"
  by (auto simp add: serialized_def buildQueryParams_def queryParams_def split: if_splits)

lemma serialized_limit_key:
  "(''limit'' \<in> fst ` set (serialized qb)) = truthy (limitValue qb)"
  by (auto simp add: serialized_def buildQueryParams_def queryParams_def split: if_splits)

lemma truthy_not_zero: "truthy v \<Longrightarrow> v \<noteq> JNum 0 \<and> v \<noteq> JNull"
  by (cases v) auto

lemma cleanFetch_respond_with:
  "cleanFetch (fetchFn (respond_with (JObj env)) req msg) =
     (if truthy (get_prop env ''success'') then Inr (get_prop env ''data'')
      else Inl (Error (get_prop env ''message'')))"
  by (simp add: cleanFetch_def fetchFn_def respond_with_def)


lemmas connection_ops =
  DBConnection_insertOne_def DBConnection_insertMany_def DBConnection_query_def
  DBConnection_updateById_def DBConnection_updateOne_def DBConnection_updateMany_def
  DBConnection_deleteById_def DBConnection_deleteOne_def DBConnection_deleteMany_def
  DBConnection_count_def DBConnection_exists_def


section \<open>The builder\<close>

text \<open>
  C1, as the code has it. \<^verbatim>\<open>populate\<close> validates nothing: for every builder and every
  object passed as config, whether or not it has \<^verbatim>\<open>field\<close>, \<^verbatim>\<open>table\<close> and
  \<^verbatim>\<open>referenceField\<close>, the call succeeds and appends exactly one directive at the end of
  the list, which grows by one; the directive carries the three sub-fields as the
  config has them (\<^verbatim>\<open>undefined\<close> when missing). The only failing call is the one
  whose argument is \<^verbatim>\<open>undefined\<close> or \<^verbatim>\<open>null\<close>, a TypeError of the language.
\<close>

theorem populate_appends_unvalidated:
  "QueryBuilder_populate qb (Some config)
     = Inr (qb\<lparr>populateFields := populateFields qb @ [populate_directive config]\<rparr>)
   \<and> length (populateFields qb @ [populate_directive config]) = Suc (length (populateFields qb))
   \<and> js_get (populate_directive config) ''field'' = Inr (get_prop config ''field'')
   \<and> js_get (populate_directive config) ''table'' = Inr (get_prop config ''table'')
   \<and> js_get (populate_directive config) ''referenceField''
       = Inr (get_prop config ''referenceField'')
   \<and> QueryBuilder_populate qb None = Inl TypeError"
  by (simp add: QueryBuilder_populate_def populate_directive_def get_prop_def)

text \<open>
  A config without \<^verbatim>\<open>field\<close>, on a builder that already holds one directive: the call
  returns the builder, with a second directive whose \<^verbatim>\<open>field\<close> is \<^verbatim>\<open>undefined\<close>.
\<close>

theorem populate_missing_field_succeeds:
  "QueryBuilder_populate
     ((new_QueryBuilder ''users'' demo_connection)
        \<lparr>populateFields := [JObj [(''field'', JStr ''posts'')]]\<rparr>)
     (Some [(''table'', JStr ''posts''), (''referenceField'', JStr ''user_id'')])
   = Inr ((new_QueryBuilder ''users'' demo_connection)\<lparr>populateFields :=
        [JObj [(''field'', JStr ''posts'')],
         JObj [(''field'', JUndefined), (''table'', JStr ''posts''),
               (''referenceField'', JStr ''user_id''), (''select'', JStr []),
               (''where'', JStr []), (''sort'', JStr []), (''limit'', JNull),
               (''skip'', JNum 0), (''justOne'', JBool False)]]\<rparr>)"
  by (simp add: QueryBuilder_populate_def populate_directive_def with_default_def get_prop_def)

text \<open>
  C2, evaluated on the code. The chain
  \<^verbatim>\<open>find().gte('age',25).lte('age',40).sort({age:-1}).limit(5).skip(10)\<close> sends sort,
  limit and skip as written, but its filters hold only the \<^verbatim>\<open>$lte\<close> bound on
  \<^verbatim>\<open>age\<close>: the \<^verbatim>\<open>$gte\<close> bound is gone.
\<close>

theorem range_chain_keeps_last_bound:
  "serialized (QueryBuilder_skip (QueryBuilder_limit (QueryBuilder_sort
           (QueryBuilder_lte (QueryBuilder_gte (DBModel_find m []) ''age'' (JNum 25))
              ''age'' (JNum 40))
           (JObj [(''age'', JNum (- 1))])) (JNum 5)) (JNum 10))
   = [(''filters'', JsonText (JsonObj [(''age'', JsonObj [(''$lte'', JsonNum 40)])])),
      (''sort'', JsonText (JsonObj [(''age'', JsonNum (- 1))])),
      (''limit'', Plain (JNum 5)), (''skip'', Plain (JNum 10))]"
  by (simp add: serialized_def buildQueryParams_def queryParams_def stringified_def
      QueryBuilder_skip_def QueryBuilder_limit_def QueryBuilder_sort_def QueryBuilder_lte_def
      QueryBuilder_gte_def DBModel_find_def new_QueryBuilder_def assign_filter_def)

text \<open>
  C3, as the code has it. For every builder, every field \<open>f\<close> other than \<^verbatim>\<open>__proto__\<close>
  and every two predicate-setting calls on \<open>f\<close> in sequence (\<^verbatim>\<open>where\<close> in either form,
  \<^verbatim>\<open>eq\<close>, \<^verbatim>\<open>gt\<close>, \<^verbatim>\<open>gte\<close>, \<^verbatim>\<open>lt\<close>, \<^verbatim>\<open>lte\<close>, \<^verbatim>\<open>in\<close>, \<^verbatim>\<open>nin\<close>, \<^verbatim>\<open>ne\<close>, \<^verbatim>\<open>between\<close>, \<^verbatim>\<open>like\<close>):
  the builder is the one the second call alone would have produced, its filters hold
  the second predicate for \<open>f\<close>, and the serialized filters map \<open>f\<close> to exactly the JSON
  of the second predicate.
\<close>

theorem predicate_replaced:
  assumes "f \<noteq> ''__proto__''"
  shows "set_predicate (set_predicate qb f c1) f c2 = set_predicate qb f c2
   \<and> get_prop (filters (set_predicate (set_predicate qb f c1) f c2)) f = JObj (predicate_of c2)
   \<and> map_of (serialized (set_predicate (set_predicate qb f c1) f c2)) ''filters''
       = Some (JsonText (JsonObj (stringify_props
           (filters (set_predicate (set_predicate qb f c1) f c2)))))
   \<and> map_of (stringify_props (filters (set_predicate (set_predicate qb f c1) f c2))) f
       = Some (JsonObj (stringify_props (predicate_of c2)))"
  using assms
  by (simp add: set_predicate_filters assign_filter_own set_prop_twice get_prop_set_prop
      serialized_filters set_prop_not_Nil stringify_props_set_prop)

theorem predicate_replaced_witness:
  "''age'' \<noteq> ''__proto__''
   \<and> map_of (stringify_props (filters
      (set_predicate (set_predicate (new_QueryBuilder ''users'' demo_connection) ''age''
         (Gte (JNum 25))) ''age'' (Between (JNum 1) (JNum 2))))) ''age''
   = Some (JsonObj [(''$between'', JsonArr [JsonNum 1, JsonNum 2])])"
proof -
  have h: "''age'' \<noteq> ''__proto__''"
    by simp
  show ?thesis
    using h predicate_replaced [OF h, where qb = "new_QueryBuilder ''users'' demo_connection"
        and ?c1.0 = "Gte (JNum 25)" and ?c2.0 = "Between (JNum 1) (JNum 2)",
        THEN conjunct2, THEN conjunct2, THEN conjunct2]
    by simp
qed

text \<open>
  Under the field name \<^verbatim>\<open>__proto__\<close> the two calls \<^verbatim>\<open>gte('__proto__', 1)\<close> and
  \<^verbatim>\<open>lte('__proto__', 2)\<close> on a new builder leave its filters without an own property,
  and nothing is serialized: there is no \<^verbatim>\<open>filters\<close> entry that could map the field to
  the second predicate.
\<close>

theorem proto_field_not_serialized:
  "filters (set_predicate (set_predicate (new_QueryBuilder ''users'' demo_connection)
       ''__proto__'' (Gte (JNum 1))) ''__proto__'' (Lte (JNum 2))) = []
   \<and> serialized (set_predicate (set_predicate (new_QueryBuilder ''users'' demo_connection)
       ''__proto__'' (Gte (JNum 1))) ''__proto__'' (Lte (JNum 2))) = []"
  by (simp add: serialized_def buildQueryParams_def queryParams_def new_QueryBuilder_def
      QueryBuilder_gte_def QueryBuilder_lte_def assign_filter_def)

text \<open>
  C4, as the code has it. The equality tag is \<^verbatim>\<open>$eq\<close>: for every builder, field and
  value, \<^verbatim>\<open>where(f, v)\<close>, \<^verbatim>\<open>where(f, '$eq', v)\<close> and \<^verbatim>\<open>eq(f, v)\<close> give the same builder,
  whose serialized filters map \<open>f\<close> to the JSON of \<^verbatim>\<open>{$eq: v}\<close> (for a field such as
  \<^verbatim>\<open>age\<close>: any name but \<^verbatim>\<open>__proto__\<close>).
\<close>

theorem where_arity_dispatch:
  "QueryBuilder_where qb f (WhereValue v) = QueryBuilder_eq qb f v
   \<and> QueryBuilder_where qb f (WhereOp ''$eq'' v) = QueryBuilder_eq qb f v
   \<and> (f \<noteq> ''__proto__'' \<longrightarrow>
        map_of (serialized (QueryBuilder_eq qb f v)) ''filters''
          = Some (JsonText (JsonObj (stringify_props (filters (QueryBuilder_eq qb f v)))))
      \<and> map_of (stringify_props (filters (QueryBuilder_eq qb f v))) f
          = Some (JsonObj (stringify_props [(''$eq'', v)])))"
  by (simp add: QueryBuilder_eq_def assign_filter_own serialized_filters set_prop_not_Nil
      stringify_props_set_prop)

theorem where_arity_dispatch_witness:
  "serialized (QueryBuilder_where (new_QueryBuilder ''users'' demo_connection) ''age''
       (WhereValue (JNum 25)))
     = [(''filters'', JsonText (JsonObj [(''age'', JsonObj [(''$eq'', JsonNum 25)])]))]
   \<and> QueryBuilder_where (new_QueryBuilder ''users'' demo_connection) ''age''
       (WhereOp ''$eq'' (JNum 25))
     = QueryBuilder_where (new_QueryBuilder ''users'' demo_connection) ''age''
       (WhereValue (JNum 25))"
  using where_arity_dispatch [of "new_QueryBuilder ''users'' demo_connection" "''age''" "JNum 25"]
  by (simp add: serialized_def buildQueryParams_def queryParams_def stringified_def
      new_QueryBuilder_def QueryBuilder_eq_def assign_filter_def)

text \<open>
  With the tag written \<^verbatim>\<open>eq\<close>: the predicate \<^verbatim>\<open>where('age', 25)\<close> serializes is not
  \<^verbatim>\<open>{age: {eq: 25}}\<close>, and \<^verbatim>\<open>where('age', 'eq', 25)\<close> does not serialize as
  \<^verbatim>\<open>where('age', 25)\<close> does.
\<close>

theorem where_bare_tag_differs:
  "map_of (serialized (QueryBuilder_where (new_QueryBuilder ''users'' demo_connection) ''age''
       (WhereValue (JNum 25)))) ''filters''
     \<noteq> Some (JsonText (JsonObj [(''age'', JsonObj [(''eq'', JsonNum 25)])]))
   \<and> serialized (QueryBuilder_where (new_QueryBuilder ''users'' demo_connection) ''age''
       (WhereOp ''eq'' (JNum 25)))
     \<noteq> serialized (QueryBuilder_where (new_QueryBuilder ''users'' demo_connection) ''age''
       (WhereValue (JNum 25)))"
  by (simp add: serialized_def buildQueryParams_def queryParams_def stringified_def
      new_QueryBuilder_def assign_filter_def)

text \<open>
  C6. A builder as the constructor leaves it, and the one \<^verbatim>\<open>find()\<close> returns for no
  filters, serialize to no parameter at all: none of the keys \<^verbatim>\<open>filters\<close>, \<^verbatim>\<open>sort\<close>,
  \<^verbatim>\<open>limit\<close>, \<^verbatim>\<open>skip\<close>, \<^verbatim>\<open>select\<close>, \<^verbatim>\<open>populate\<close> is sent.
\<close>

theorem fresh_builder_serializes_empty:
  "serialized (new_QueryBuilder name client) = []
   \<and> serialized (DBModel_find m []) = []"
  by (simp add: serialized_def buildQueryParams_def queryParams_def new_QueryBuilder_def
      DBModel_find_def)

text \<open>
  C10. For every builder, the serialized query has a \<^verbatim>\<open>skip\<close> key only when the skip
  value is not 0, and a \<^verbatim>\<open>limit\<close> key only when the limit value is neither 0 nor
  \<^verbatim>\<open>null\<close>; after \<^verbatim>\<open>skip(0)\<close> there is no \<^verbatim>\<open>skip\<close> key and after \<^verbatim>\<open>limit(0)\<close> no \<^verbatim>\<open>limit\<close>
  key; and on a builder whose skip (limit) is still the default, \<^verbatim>\<open>skip(0)\<close>
  (\<^verbatim>\<open>limit(0)\<close>) leaves the serialized query as it was.
\<close>

theorem zero_pagination_elided:
  "(''skip'' \<in> fst ` set (serialized qb) \<longrightarrow> skipValue qb \<noteq> JNum 0)
   \<and> (''limit'' \<in> fst ` set (serialized qb)
        \<longrightarrow> limitValue qb \<noteq> JNum 0 \<and> limitValue qb \<noteq> JNull)
   \<and> ''skip'' \<notin> fst ` set (serialized (QueryBuilder_skip qb (JNum 0)))
   \<and> ''limit'' \<notin> fst ` set (serialized (QueryBuilder_limit qb (JNum 0)))
   \<and> (skipValue qb = JNum 0 \<longrightarrow> serialized (QueryBuilder_skip qb (JNum 0)) = serialized qb)
   \<and> (limitValue qb = JNull \<longrightarrow> serialized (QueryBuilder_limit qb (JNum 0)) = serialized qb)"
  using truthy_not_zero [of "skipValue qb"] truthy_not_zero [of "limitValue qb"]
  by (simp add: serialized_skip_key serialized_limit_key QueryBuilder_skip_def
      QueryBuilder_limit_def)
     (simp add: serialized_def buildQueryParams_def queryParams_def)

theorem zero_pagination_elided_witness:
  "serialized (QueryBuilder_limit
       (QueryBuilder_skip (new_QueryBuilder ''users'' demo_connection) (JNum 0)) (JNum 0)) = []
   \<and> serialized (QueryBuilder_limit
       (QueryBuilder_skip (new_QueryBuilder ''users'' demo_connection) (JNum 10)) (JNum 5))
     = [(''limit'', Plain (JNum 5)), (''skip'', Plain (JNum 10))]"
  using zero_pagination_elided [of "new_QueryBuilder ''users'' demo_connection"]
    zero_pagination_elided [of "QueryBuilder_limit
       (QueryBuilder_skip (new_QueryBuilder ''users'' demo_connection) (JNum 10)) (JNum 5)"]
  by (simp add: serialized_def buildQueryParams_def queryParams_def new_QueryBuilder_def
      QueryBuilder_skip_def QueryBuilder_limit_def)

section \<open>The model and the transport\<close>

text \<open>
  C5. Whenever the connection's \<^verbatim>\<open>updateOne\<close> or \<^verbatim>\<open>updateMany\<close> (\<^verbatim>\<open>deleteOne\<close> or
  \<^verbatim>\<open>deleteMany\<close>) resolves to a list \<open>xs\<close>, the model returns
  \<^verbatim>\<open>{acknowledged: true, matchedCount: n, modifiedCount: n}\<close>
  (\<^verbatim>\<open>{acknowledged: true, deletedCount: n}\<close>) with \<open>n\<close> the length of \<open>xs\<close>, whatever the
  elements are; and whatever these four operations return when they do not fail has
  \<^verbatim>\<open>acknowledged\<close> true.
\<close>

theorem counts_from_length:
  "(DBConnection_updateOne fetch (model_apiClient m) (model_collectionName m) fl
        (prepareFields d) = Inr (JArr xs)
      \<longrightarrow> DBModel_updateOne fetch m fl d
          = Inr (JObj [(''acknowledged'', JBool True),
                       (''matchedCount'', JNum (int (length xs))),
                       (''modifiedCount'', JNum (int (length xs)))]))
   \<and> (DBConnection_updateMany fetch (model_apiClient m) (model_collectionName m) fl
        (prepareFields d) = Inr (JArr xs)
      \<longrightarrow> DBModel_updateMany fetch m fl d
          = Inr (JObj [(''acknowledged'', JBool True),
                       (''matchedCount'', JNum (int (length xs))),
                       (''modifiedCount'', JNum (int (length xs)))]))
   \<and> (DBConnection_deleteOne fetch (model_apiClient m) (model_collectionName m) fl
        = Inr (JArr xs)
      \<longrightarrow> DBModel_deleteOne fetch m fl
          = Inr (JObj [(''acknowledged'', JBool True),
                       (''deletedCount'', JNum (int (length xs)))]))
   \<and> (DBConnection_deleteMany fetch (model_apiClient m) (model_collectionName m) fl
        = Inr (JArr xs)
      \<longrightarrow> DBModel_deleteMany fetch m fl
          = Inr (JObj [(''acknowledged'', JBool True),
                       (''deletedCount'', JNum (int (length xs)))]))
   \<and> (\<forall>r. DBModel_updateOne fetch m fl d = Inr r \<or> DBModel_updateMany fetch m fl d = Inr r
          \<or> DBModel_deleteOne fetch m fl = Inr r \<or> DBModel_deleteMany fetch m fl = Inr r
        \<longrightarrow> js_get r ''acknowledged'' = Inr (JBool True))"
  by (auto simp add: DBModel_updateOne_def DBModel_updateMany_def DBModel_deleteOne_def
      DBModel_deleteMany_def await_def get_prop_def split: sum.splits)

theorem counts_from_length_witness:
  "DBModel_updateOne
     (respond_with (JObj [(''success'', JBool True),
                          (''data'', JArr [JObj [], JObj [], JObj []])]))
     demo_model [(''active'', JBool False)] [(''age'', JNum 1)]
   = Inr (JObj [(''acknowledged'', JBool True), (''matchedCount'', JNum 3),
                (''modifiedCount'', JNum 3)])
   \<and> DBModel_updateMany
     (respond_with (JObj [(''success'', JBool True),
                          (''data'', JArr [JObj [], JObj [], JObj []])]))
     demo_model [(''active'', JBool False)] [(''age'', JNum 1)]
   = Inr (JObj [(''acknowledged'', JBool True), (''matchedCount'', JNum 3),
                (''modifiedCount'', JNum 3)])
   \<and> DBModel_deleteOne
     (respond_with (JObj [(''success'', JBool True),
                          (''data'', JArr [JObj [], JObj [], JObj []])]))
     demo_model [(''active'', JBool False)]
   = Inr (JObj [(''acknowledged'', JBool True), (''deletedCount'', JNum 3)])
   \<and> DBModel_deleteMany
     (respond_with (JObj [(''success'', JBool True),
                          (''data'', JArr [JObj [], JObj [], JObj []])]))
     demo_model [(''active'', JBool False)]
   = Inr (JObj [(''acknowledged'', JBool True), (''deletedCount'', JNum 3)])"
  using counts_from_length [of
      "respond_with (JObj [(''success'', JBool True),
                           (''data'', JArr [JObj [], JObj [], JObj []])])"
      demo_model "[(''active'', JBool False)]" "[(''age'', JNum 1)]"
      "[JObj [], JObj [], JObj []]"]
  by (simp add: connection_ops cleanFetch_respond_with get_prop_def)

text \<open>
  C7. When the query \<^verbatim>\<open>findOne\<close> (\<^verbatim>\<open>findById\<close>) executes resolves to the empty list, the
  operation resolves to \<^verbatim>\<open>null\<close>, and does not fail; when it resolves to a list whose
  first element is a document (an object), the operation resolves to that document.
\<close>

theorem findOne_absent_is_null:
  "(QueryBuilder_exec fetch (QueryBuilder_limit (DBModel_find m fl) (JNum 1)) = Inr (JArr [])
      \<longrightarrow> DBModel_findOne fetch m fl = Inr JNull)
   \<and> (QueryBuilder_exec fetch (QueryBuilder_limit (DBModel_find m fl) (JNum 1))
        = Inr (JArr (JObj doc # docs))
      \<longrightarrow> DBModel_findOne fetch m fl = Inr (JObj doc))
   \<and> (QueryBuilder_exec fetch
          (QueryBuilder_limit (DBModel_find m [(''id'', JStr rid)]) (JNum 1)) = Inr (JArr [])
      \<longrightarrow> DBModel_findById fetch m rid = Inr JNull)
   \<and> (QueryBuilder_exec fetch
          (QueryBuilder_limit (DBModel_find m [(''id'', JStr rid)]) (JNum 1))
        = Inr (JArr (JObj doc # docs))
      \<longrightarrow> DBModel_findById fetch m rid = Inr (JObj doc))"
  by (simp add: DBModel_findOne_def DBModel_findById_def js_or_def)

theorem findOne_absent_is_null_witness:
  "DBModel_findOne (respond_with (JObj [(''success'', JBool True), (''data'', JArr [])]))
     demo_model [(''email'', JStr ''missing@x.com'')] = Inr JNull
   \<and> DBModel_findById (respond_with (JObj [(''success'', JBool True), (''data'', JArr [])]))
     demo_model ''42'' = Inr JNull
   \<and> DBModel_findOne
     (respond_with (JObj [(''success'', JBool True),
                          (''data'', JArr [JObj [(''id'', JStr ''42'')], JObj []])]))
     demo_model [(''email'', JStr ''jo@x.com'')] = Inr (JObj [(''id'', JStr ''42'')])
   \<and> DBModel_findById
     (respond_with (JObj [(''success'', JBool True),
                          (''data'', JArr [JObj [(''id'', JStr ''42'')], JObj []])]))
     demo_model ''42'' = Inr (JObj [(''id'', JStr ''42'')])"
  using findOne_absent_is_null [of
      "respond_with (JObj [(''success'', JBool True), (''data'', JArr [])])"
      demo_model "[(''email'', JStr ''missing@x.com'')]" "[]" "[]" "''42''"]
    findOne_absent_is_null [of
      "respond_with (JObj [(''success'', JBool True),
                           (''data'', JArr [JObj [(''id'', JStr ''42'')], JObj []])])"
      demo_model "[(''email'', JStr ''jo@x.com'')]" "[(''id'', JStr ''42'')]" "[JObj []]"
      "''42''"]
  by (simp add: QueryBuilder_exec_def DBConnection_query_def cleanFetch_respond_with get_prop_def)



text \<open>
  C9. For every connection, table, filters object and fields: the body of the request
  \<^verbatim>\<open>updateOne\<close> (\<^verbatim>\<open>deleteOne\<close>) sends is a JSON object with the filters under \<^verbatim>\<open>filters\<close>
  and 1 under \<^verbatim>\<open>limit\<close>; the body \<^verbatim>\<open>updateMany\<close> (\<^verbatim>\<open>deleteMany\<close>) sends has the filters
  under \<^verbatim>\<open>filters\<close> and no \<^verbatim>\<open>limit\<close> key. Each operation sends the request named.
\<close>

theorem single_writes_carry_limit:
  "(\<exists>props. body (updateOne_request c t fl fs) = Some (JsonObj props)
      \<and> map_of props ''filters'' = Some (JsonObj (stringify_props fl))
      \<and> map_of props ''limit'' = Some (JsonNum 1))
   \<and> (\<exists>props. body (deleteOne_request c t fl) = Some (JsonObj props)
      \<and> map_of props ''filters'' = Some (JsonObj (stringify_props fl))
      \<and> map_of props ''limit'' = Some (JsonNum 1))
   \<and> (\<exists>props. body (updateMany_request c t fl fs) = Some (JsonObj props)
      \<and> map_of props ''filters'' = Some (JsonObj (stringify_props fl))
      \<and> map_of props ''limit'' = None)
   \<and> (\<exists>props. body (deleteMany_request c t fl) = Some (JsonObj props)
      \<and> map_of props ''filters'' = Some (JsonObj (stringify_props fl))
      \<and> map_of props ''limit'' = None)
   \<and> DBConnection_updateOne fetch c t fl fs
       = cleanFetch (fetchFn fetch (updateOne_request c t fl fs) ''Failed to update record: '')
   \<and> DBConnection_deleteOne fetch c t fl
       = cleanFetch (fetchFn fetch (deleteOne_request c t fl) ''Failed to delete record: '')
   \<and> DBConnection_updateMany fetch c t fl fs
       = cleanFetch (fetchFn fetch (updateMany_request c t fl fs) ''Failed to update records: '')
   \<and> DBConnection_deleteMany fetch c t fl
       = cleanFetch (fetchFn fetch (deleteMany_request c t fl) ''Failed to delete records: '')"
  by (simp add: updateOne_request_def deleteOne_request_def updateMany_request_def
      deleteMany_request_def DBConnection_updateOne_def DBConnection_deleteOne_def
      DBConnection_updateMany_def DBConnection_deleteMany_def split: option.splits)

end
